theory Spec2Isabelle
  imports Main
begin

section \<open>Values, signals and slots\<close>

text \<open>
  The program is a PyQt6 window (\<^verbatim>\<open>MainWindow.py\<close>). Its classes are widgets whose
  methods are connected as slots to signals of the Qt widgets they own. The embedding keeps
  the widget tree as nested records, a signal's connections as the list of slots connected
  to it, and the signals the panels emit themselves as a trace of notifications.
\<close>

text \<open>\<^verbatim>\<open>Qt.CheckState\<close>, the value \<^verbatim>\<open>QCheckBox.checkState()\<close> returns.\<close>

datatype CheckState = Unchecked | PartiallyChecked | Checked

text \<open>The Python values that travel as signal arguments and dictionary entries.\<close>

datatype pyval =
    PyStr string
  | PyBool bool
  | PyInt int
  | PyCheckState CheckState

text \<open>The class of a value, as \<^verbatim>\<open>type(v)\<close> reports it.\<close>

datatype pytype = T_str | T_bool | T_int | T_CheckState

fun type_of :: "pyval \<Rightarrow> pytype" where
  "type_of (PyStr s) = T_str"
| "type_of (PyBool b) = T_bool"
| "type_of (PyInt i) = T_int"
| "type_of (PyCheckState c) = T_CheckState"

text \<open>A Python dict literal, in insertion order.\<close>

type_synonym pydict = "(string \<times> pyval) list"

text \<open>The integer a \<^verbatim>\<open>Qt.CheckState\<close> member stands for (the argument of \<^verbatim>\<open>stateChanged\<close>).\<close>

fun CheckState_value :: "CheckState \<Rightarrow> int" where
  "CheckState_value Unchecked = 0"
| "CheckState_value PartiallyChecked = 1"
| "CheckState_value Checked = 2"

text \<open>
  Calling a slot with too few arguments, or emitting a \<^verbatim>\<open>pyqtSignal(str)\<close> with a value that
  is not a string, raises \<^verbatim>\<open>TypeError\<close>. The source has no \<^verbatim>\<open>raise\<close> of its own.
\<close>

datatype error = TypeError

text \<open>The bound methods that the \<^verbatim>\<open>connect\<close> methods register as slots.\<close>

datatype slot =
    Slot_onVisaSettingsChanged
  | Slot_onSqlSettingsChanged
  | Slot_onLocalSettingsChanged
  | Slot_onDirectoryButtonClicked
  | Slot_onStatefileButtonClicked

text \<open>
  The three \<^verbatim>\<open>pyqtSignal\<close>s the panels declare, with their payloads:
  \<^verbatim>\<open>signalVisaSettingsChanged = pyqtSignal(str)\<close>,
  \<^verbatim>\<open>signalSqlSettingsChanged = pyqtSignal(dict)\<close>,
  \<^verbatim>\<open>signalLocalSettingsChanged = pyqtSignal(str)\<close>.
  Nothing in the program connects to them, so an emission is only recorded.
\<close>

datatype notification =
    signalVisaSettingsChanged string
  | signalSqlSettingsChanged pydict
  | signalLocalSettingsChanged string

fun is_visa_notification :: "notification \<Rightarrow> bool" where
  "is_visa_notification (signalVisaSettingsChanged d) = True"
| "is_visa_notification n = False"

fun is_sql_notification :: "notification \<Rightarrow> bool" where
  "is_sql_notification (signalSqlSettingsChanged d) = True"
| "is_sql_notification n = False"

fun is_local_notification :: "notification \<Rightarrow> bool" where
  "is_local_notification (signalLocalSettingsChanged p) = True"
| "is_local_notification n = False"

text \<open>
  What the user does with a modal \<^verbatim>\<open>QFileDialog\<close>: confirm a path (the file dialog also
  reports the selected name filter), or cancel.
\<close>

datatype dialog_outcome = Accepted string string | Cancelled

text \<open>
  \<^verbatim>\<open>QFileDialog.getExistingDirectory\<close> returns the chosen directory, and the empty string when
  the user cancels. \<^verbatim>\<open>QFileDialog.getOpenFileName\<close> returns the pair of the chosen file name
  and the selected filter, both empty when the user cancels.
\<close>

fun getExistingDirectory :: "dialog_outcome \<Rightarrow> string" where
  "getExistingDirectory (Accepted path flt) = path"
| "getExistingDirectory Cancelled = []"

fun getOpenFileName :: "dialog_outcome \<Rightarrow> string \<times> string" where
  "getOpenFileName (Accepted path flt) = (path, flt)"
| "getOpenFileName Cancelled = ([], [])"

section \<open>Qt widgets\<close>

text \<open>
  Each widget keeps the value the program reads or writes and, for the one signal of its
  class that the program connects to, the slots connected so far.
\<close>

record QLineEdit =
  le_text :: string
  editingFinished :: "slot list"

record QCheckBox =
  checkState :: CheckState
  stateChanged :: "slot list"

record QPushButton =
  pb_text :: string
  clicked :: "slot list"

record QComboBox =
  currentText :: string
  currentTextChanged :: "slot list"

record QTableWidget =
  rowCount :: nat
  columnCount :: nat
  horizontalHeaderItems :: "string option list"

definition QLineEdit_init :: QLineEdit where
  "QLineEdit_init = \<lparr> le_text = [], editingFinished = [] \<rparr>"

definition QCheckBox_init :: QCheckBox where
  "QCheckBox_init = \<lparr> checkState = Unchecked, stateChanged = [] \<rparr>"

definition QPushButton_init :: "string \<Rightarrow> QPushButton" where
  "QPushButton_init t = \<lparr> pb_text = t, clicked = [] \<rparr>"

definition QComboBox_init :: QComboBox where
  "QComboBox_init = \<lparr> currentText = [], currentTextChanged = [] \<rparr>"

text \<open>\<^verbatim>\<open>QTableWidget(rows, columns)\<close>: no header item is set yet.\<close>

definition QTableWidget_init :: "nat \<Rightarrow> nat \<Rightarrow> QTableWidget" where
  "QTableWidget_init rows cols =
     \<lparr> rowCount = rows, columnCount = cols, horizontalHeaderItems = replicate cols None \<rparr>"

text \<open>
  \<^verbatim>\<open>setHorizontalHeaderLabels\<close> labels the columns that exist, as far as the labels reach.
\<close>

definition setHorizontalHeaderLabels :: "string list \<Rightarrow> QTableWidget \<Rightarrow> QTableWidget" where
  "setHorizontalHeaderLabels labels t =
     t \<lparr> horizontalHeaderItems :=
           map (\<lambda>i. if i < length labels then Some (labels ! i)
                     else horizontalHeaderItems t ! i)
               [0 ..< columnCount t] \<rparr>"

text \<open>
  \<^verbatim>\<open>QLineEdit.setText\<close> replaces the text. It does not emit \<^verbatim>\<open>editingFinished\<close>, which Qt
  reserves for Return/Enter and loss of focus.
\<close>

definition setText :: "string \<Rightarrow> QLineEdit \<Rightarrow> QLineEdit" where
  "setText t le = le \<lparr> le_text := t \<rparr>"

text \<open>A click on a two-state check box checks it when unchecked and unchecks it otherwise.\<close>

fun nextCheckState :: "CheckState \<Rightarrow> CheckState" where
  "nextCheckState Unchecked = Checked"
| "nextCheckState PartiallyChecked = Unchecked"
| "nextCheckState Checked = Unchecked"

text \<open>\<^verbatim>\<open>signal.connect(slot)\<close> adds one connection.\<close>

definition connect_editingFinished :: "slot \<Rightarrow> QLineEdit \<Rightarrow> QLineEdit" where
  "connect_editingFinished sl le = le \<lparr> editingFinished := editingFinished le @ [sl] \<rparr>"

definition connect_stateChanged :: "slot \<Rightarrow> QCheckBox \<Rightarrow> QCheckBox" where
  "connect_stateChanged sl cb = cb \<lparr> stateChanged := stateChanged cb @ [sl] \<rparr>"

definition connect_clicked :: "slot \<Rightarrow> QPushButton \<Rightarrow> QPushButton" where
  "connect_clicked sl pb = pb \<lparr> clicked := clicked pb @ [sl] \<rparr>"

definition connect_currentTextChanged :: "slot \<Rightarrow> QComboBox \<Rightarrow> QComboBox" where
  "connect_currentTextChanged sl cb = cb \<lparr> currentTextChanged := currentTextChanged cb @ [sl] \<rparr>"

section \<open>The connection panels\<close>

subsection \<open>VisaConnectionBox\<close>

text \<open>
  The source names the first label of two panels \<^verbatim>\<open>lab_status\<close>; the fields are
  \<open>visa_lab_status\<close> and \<open>sql_lab_status\<close> here. The group-box title is the argument of
  \<^verbatim>\<open>ConnectionBox.__init__\<close>.
\<close>

record VisaConnectionBox =
  visa_title :: string
  visa_lab_status :: string
  lab_status_q :: string
  lab_device :: string
  dd_device :: QComboBox

definition VisaConnectionBox_layout :: "string \<Rightarrow> VisaConnectionBox" where
  "VisaConnectionBox_layout title =
     \<lparr> visa_title = title,
       visa_lab_status = ''Connection status:'',
       lab_status_q = ''Disconnected'',
       lab_device = ''Device:'',
       dd_device = QComboBox_init \<rparr>"

definition VisaConnectionBox_connect :: "VisaConnectionBox \<Rightarrow> VisaConnectionBox" where
  "VisaConnectionBox_connect b =
     b \<lparr> dd_device := connect_currentTextChanged Slot_onVisaSettingsChanged (dd_device b) \<rparr>"

definition VisaConnectionBox_init :: VisaConnectionBox where
  "VisaConnectionBox_init =
     VisaConnectionBox_connect (VisaConnectionBox_layout ''VISA device connection'')"

text \<open>
  \<^verbatim>\<open>onVisaSettingsChanged(self, device)\<close> emits \<^verbatim>\<open>signalVisaSettingsChanged\<close> with its
  argument. The method needs one argument, and the signal takes a string.
\<close>

fun onVisaSettingsChanged ::
  "pyval list \<Rightarrow> VisaConnectionBox \<Rightarrow> error + notification list" where
  "onVisaSettingsChanged (PyStr device # args) b = Inr [signalVisaSettingsChanged device]"
| "onVisaSettingsChanged args b = Inl TypeError"

subsection \<open>SqlConnectionBox\<close>

record SqlConnectionBox =
  sql_title :: string
  sql_lab_status :: string
  checkbox_status :: QCheckBox
  lab_server :: string
  line_server :: QLineEdit
  lab_database :: string
  line_database :: QLineEdit
  lab_table :: string
  line_table :: QLineEdit

definition SqlConnectionBox_layout :: "string \<Rightarrow> SqlConnectionBox" where
  "SqlConnectionBox_layout title =
     \<lparr> sql_title = title,
       sql_lab_status = ''Enable logging:'',
       checkbox_status = QCheckBox_init,
       lab_server = ''Server:'',
       line_server = QLineEdit_init,
       lab_database = ''Database:'',
       line_database = QLineEdit_init,
       lab_table = ''Table:'',
       line_table = QLineEdit_init \<rparr>"

text \<open>\<^verbatim>\<open>settings\<close>: the dictionary of the four fields, read when it is called.\<close>

definition settings :: "SqlConnectionBox \<Rightarrow> pydict" where
  "settings b =
     [(''enabled'', PyCheckState (checkState (checkbox_status b))),
      (''server'', PyStr (le_text (line_server b))),
      (''database'', PyStr (le_text (line_database b))),
      (''table'', PyStr (le_text (line_table b)))]"

definition SqlConnectionBox_connect :: "SqlConnectionBox \<Rightarrow> SqlConnectionBox" where
  "SqlConnectionBox_connect b =
     b \<lparr> checkbox_status := connect_stateChanged Slot_onSqlSettingsChanged (checkbox_status b),
         line_server := connect_editingFinished Slot_onSqlSettingsChanged (line_server b),
         line_database := connect_editingFinished Slot_onSqlSettingsChanged (line_database b),
         line_table := connect_editingFinished Slot_onSqlSettingsChanged (line_table b) \<rparr>"

definition SqlConnectionBox_init :: SqlConnectionBox where
  "SqlConnectionBox_init =
     SqlConnectionBox_connect (SqlConnectionBox_layout ''SQL server connection'')"

definition onSqlSettingsChanged :: "SqlConnectionBox \<Rightarrow> notification list" where
  "onSqlSettingsChanged b = [signalSqlSettingsChanged (settings b)]"

subsection \<open>LocalConnectionBox\<close>

record LocalConnectionBox =
  local_title :: string
  lab_statefile :: string
  button_statefile :: QPushButton
  line_statefile :: QLineEdit
  lab_dir :: string
  button_dir :: QPushButton
  line_dir :: QLineEdit

definition LocalConnectionBox_layout :: "string \<Rightarrow> LocalConnectionBox" where
  "LocalConnectionBox_layout title =
     \<lparr> local_title = title,
       lab_statefile = ''State file:'',
       button_statefile = QPushButton_init ''Browse...'',
       line_statefile = QLineEdit_init,
       lab_dir = ''Fallback directory:'',
       button_dir = QPushButton_init ''Browse...'',
       line_dir = QLineEdit_init \<rparr>"

definition LocalConnectionBox_connect :: "LocalConnectionBox \<Rightarrow> LocalConnectionBox" where
  "LocalConnectionBox_connect b =
     b \<lparr> button_statefile := connect_clicked Slot_onStatefileButtonClicked (button_statefile b),
         button_dir := connect_clicked Slot_onDirectoryButtonClicked (button_dir b),
         line_dir := connect_editingFinished Slot_onLocalSettingsChanged (line_dir b) \<rparr>"

definition LocalConnectionBox_init :: LocalConnectionBox where
  "LocalConnectionBox_init = LocalConnectionBox_connect (LocalConnectionBox_layout ''Local settings'')"

definition onLocalSettingsChanged :: "LocalConnectionBox \<Rightarrow> notification list" where
  "onLocalSettingsChanged b = [signalLocalSettingsChanged (le_text (line_dir b))]"

text \<open>
  \<^verbatim>\<open>onDirectoryButtonClicked\<close> and \<^verbatim>\<open>onStatefileButtonClicked\<close> open the dialog and write
  what it returns into the field. Neither tests the returned value and neither emits.
\<close>

definition onDirectoryButtonClicked ::
  "dialog_outcome \<Rightarrow> LocalConnectionBox \<Rightarrow> LocalConnectionBox" where
  "onDirectoryButtonClicked d b =
     (let folder = getExistingDirectory d
      in b \<lparr> line_dir := setText folder (line_dir b) \<rparr>)"

definition onStatefileButtonClicked ::
  "dialog_outcome \<Rightarrow> LocalConnectionBox \<Rightarrow> LocalConnectionBox" where
  "onStatefileButtonClicked d b =
     (let file_name = fst (getOpenFileName d)
      in b \<lparr> line_statefile := setText file_name (line_statefile b) \<rparr>)"

section \<open>The route and acquisition pages\<close>

record StatefileTable =
  table_title :: string
  table :: QTableWidget

definition StatefileTable_init :: StatefileTable where
  "StatefileTable_init =
     (let headers = [''Description'', ''Units'', ''Scan'', ''Configure'']
      in \<lparr> table_title = ''Scan Route'',
           table = setHorizontalHeaderLabels headers (QTableWidget_init 0 4) \<rparr>)"

record StatefileSourceBox =
  source_title :: string
  lab_src :: string
  dd_src :: QComboBox
  button_src_reload :: QPushButton

definition StatefileSourceBox_init :: StatefileSourceBox where
  "StatefileSourceBox_init =
     \<lparr> source_title = ''State file settings'',
       lab_src = ''State file source:'',
       dd_src = QComboBox_init,
       button_src_reload = QPushButton_init ''Reload'' \<rparr>"

record MetadataBox =
  metadata_title :: string
  label_part :: string
  line_part :: QLineEdit
  label_number :: string
  line_number :: QLineEdit

definition MetadataBox_init :: MetadataBox where
  "MetadataBox_init =
     \<lparr> metadata_title = ''Metadata'',
       label_part = ''Part number'',
       line_part = QLineEdit_init,
       label_number = ''Run number'',
       line_number = QLineEdit_init \<rparr>"

section \<open>Pages, tabs and the window\<close>

text \<open>
  \<^verbatim>\<open>ConnectionsPage\<close> adds its three boxes to the layout without naming them; the fields
  follow the order of the \<^verbatim>\<open>addWidget\<close> calls.
\<close>

record ConnectionsPage =
  box_visa :: VisaConnectionBox
  box_sql :: SqlConnectionBox
  box_local :: LocalConnectionBox

definition ConnectionsPage_init :: ConnectionsPage where
  "ConnectionsPage_init =
     \<lparr> box_visa = VisaConnectionBox_init,
       box_sql = SqlConnectionBox_init,
       box_local = LocalConnectionBox_init \<rparr>"

record StatefilePage =
  box_source :: StatefileSourceBox
  table_statefile :: StatefileTable

definition StatefilePage_init :: StatefilePage where
  "StatefilePage_init =
     \<lparr> box_source = StatefileSourceBox_init, table_statefile = StatefileTable_init \<rparr>"

record AquisitionPage =
  button_nextrun :: QPushButton
  button_load :: QPushButton
  button_start :: QPushButton
  box_metadata :: MetadataBox

definition AquisitionPage_init :: AquisitionPage where
  "AquisitionPage_init =
     \<lparr> button_nextrun = QPushButton_init ''Guess meta data'',
       button_load = QPushButton_init ''Set load'',
       button_start = QPushButton_init ''Start'',
       box_metadata = MetadataBox_init \<rparr>"

text \<open>The page objects a tab can show.\<close>

datatype page = Page_connections | Page_statefile | Page_aquisition

datatype TabPosition = North | South | West | East

text \<open>
  \<^verbatim>\<open>TabWidget\<close>: the tab bar is the list of (page, label) in display order;
  \<open>currentIndex\<close> is \<open>None\<close> while there is no tab.
\<close>

record TabWidget =
  tabPosition :: TabPosition
  movable :: bool
  page_connections :: ConnectionsPage
  page_statefile :: StatefilePage
  page_aquisition :: AquisitionPage
  tab_bar :: "(page \<times> string) list"
  currentIndex :: "nat option"

text \<open>\<^verbatim>\<open>addTab\<close> appends a tab; the first tab added becomes the current one.\<close>

definition addTab :: "page \<Rightarrow> string \<Rightarrow> TabWidget \<Rightarrow> TabWidget" where
  "addTab p label tw =
     tw \<lparr> tab_bar := tab_bar tw @ [(p, label)],
          currentIndex := (case currentIndex tw of None \<Rightarrow> Some 0 | Some i \<Rightarrow> Some i) \<rparr>"

definition setTabPosition :: "TabPosition \<Rightarrow> TabWidget \<Rightarrow> TabWidget" where
  "setTabPosition p tw = tw \<lparr> tabPosition := p \<rparr>"

definition setMovable :: "bool \<Rightarrow> TabWidget \<Rightarrow> TabWidget" where
  "setMovable m tw = tw \<lparr> movable := m \<rparr>"

text \<open>\<^verbatim>\<open>QTabWidget()\<close> before the program configures it: tabs on top, not movable, no tab.\<close>

definition QTabWidget_init ::
  "ConnectionsPage \<Rightarrow> StatefilePage \<Rightarrow> AquisitionPage \<Rightarrow> TabWidget" where
  "QTabWidget_init pc ps pa =
     \<lparr> tabPosition = North, movable = False,
       page_connections = pc, page_statefile = ps, page_aquisition = pa,
       tab_bar = [], currentIndex = None \<rparr>"

definition TabWidget_init :: TabWidget where
  "TabWidget_init =
     addTab Page_aquisition ''Aquisition''
       (addTab Page_statefile ''Route''
         (addTab Page_connections ''Connections''
           (setMovable False
             (setTabPosition North
               (QTabWidget_init ConnectionsPage_init StatefilePage_init AquisitionPage_init)))))"

definition WINDOW_TITLE :: string where
  "WINDOW_TITLE = ''VISA device controller''"

record MainWindow =
  windowTitle :: string
  tabs :: TabWidget

text \<open>\<^verbatim>\<open>MainWindow.connect\<close> is \<^verbatim>\<open>pass\<close>: the window connects nothing.\<close>

definition MainWindow_connect :: "MainWindow \<Rightarrow> MainWindow" where
  "MainWindow_connect w = w"

definition MainWindow_init :: MainWindow where
  "MainWindow_init = MainWindow_connect \<lparr> windowTitle = WINDOW_TITLE, tabs = TabWidget_init \<rparr>"

section \<open>Reaching the widgets from the window\<close>

definition visa_box :: "MainWindow \<Rightarrow> VisaConnectionBox" where
  "visa_box w = box_visa (page_connections (tabs w))"

definition sql_box :: "MainWindow \<Rightarrow> SqlConnectionBox" where
  "sql_box w = box_sql (page_connections (tabs w))"

definition local_box :: "MainWindow \<Rightarrow> LocalConnectionBox" where
  "local_box w = box_local (page_connections (tabs w))"

definition source_box :: "MainWindow \<Rightarrow> StatefileSourceBox" where
  "source_box w = box_source (page_statefile (tabs w))"

definition route_table :: "MainWindow \<Rightarrow> QTableWidget" where
  "route_table w = table (table_statefile (page_statefile (tabs w)))"

definition aquisition_page :: "MainWindow \<Rightarrow> AquisitionPage" where
  "aquisition_page w = page_aquisition (tabs w)"

definition metadata_box :: "MainWindow \<Rightarrow> MetadataBox" where
  "metadata_box w = box_metadata (page_aquisition (tabs w))"

definition map_visa_box ::
  "(VisaConnectionBox \<Rightarrow> VisaConnectionBox) \<Rightarrow> MainWindow \<Rightarrow> MainWindow" where
  "map_visa_box f w = tabs_update (page_connections_update (box_visa_update f)) w"

definition map_sql_box ::
  "(SqlConnectionBox \<Rightarrow> SqlConnectionBox) \<Rightarrow> MainWindow \<Rightarrow> MainWindow" where
  "map_sql_box f w = tabs_update (page_connections_update (box_sql_update f)) w"

definition map_local_box ::
  "(LocalConnectionBox \<Rightarrow> LocalConnectionBox) \<Rightarrow> MainWindow \<Rightarrow> MainWindow" where
  "map_local_box f w = tabs_update (page_connections_update (box_local_update f)) w"

definition map_source_box ::
  "(StatefileSourceBox \<Rightarrow> StatefileSourceBox) \<Rightarrow> MainWindow \<Rightarrow> MainWindow" where
  "map_source_box f w = tabs_update (page_statefile_update (box_source_update f)) w"

definition map_aquisition_page ::
  "(AquisitionPage \<Rightarrow> AquisitionPage) \<Rightarrow> MainWindow \<Rightarrow> MainWindow" where
  "map_aquisition_page f w = tabs_update (page_aquisition_update f) w"

definition map_metadata_box ::
  "(MetadataBox \<Rightarrow> MetadataBox) \<Rightarrow> MainWindow \<Rightarrow> MainWindow" where
  "map_metadata_box f w = tabs_update (page_aquisition_update (box_metadata_update f)) w"

text \<open>The line edits, push buttons and combo boxes of the window, by attribute name.\<close>

datatype lineedit =
    Line_server | Line_database | Line_table
  | Line_statefile | Line_dir
  | Line_part | Line_number

datatype button =
    Button_statefile | Button_dir
  | Button_src_reload
  | Button_nextrun | Button_load | Button_start

datatype combo = Dd_device | Dd_src

fun get_line :: "lineedit \<Rightarrow> MainWindow \<Rightarrow> QLineEdit" where
  "get_line Line_server w = line_server (sql_box w)"
| "get_line Line_database w = line_database (sql_box w)"
| "get_line Line_table w = line_table (sql_box w)"
| "get_line Line_statefile w = line_statefile (local_box w)"
| "get_line Line_dir w = line_dir (local_box w)"
| "get_line Line_part w = line_part (metadata_box w)"
| "get_line Line_number w = line_number (metadata_box w)"

fun map_line :: "lineedit \<Rightarrow> (QLineEdit \<Rightarrow> QLineEdit) \<Rightarrow> MainWindow \<Rightarrow> MainWindow" where
  "map_line Line_server f w = map_sql_box (line_server_update f) w"
| "map_line Line_database f w = map_sql_box (line_database_update f) w"
| "map_line Line_table f w = map_sql_box (line_table_update f) w"
| "map_line Line_statefile f w = map_local_box (line_statefile_update f) w"
| "map_line Line_dir f w = map_local_box (line_dir_update f) w"
| "map_line Line_part f w = map_metadata_box (line_part_update f) w"
| "map_line Line_number f w = map_metadata_box (line_number_update f) w"

fun get_button :: "button \<Rightarrow> MainWindow \<Rightarrow> QPushButton" where
  "get_button Button_statefile w = button_statefile (local_box w)"
| "get_button Button_dir w = button_dir (local_box w)"
| "get_button Button_src_reload w = button_src_reload (source_box w)"
| "get_button Button_nextrun w = button_nextrun (aquisition_page w)"
| "get_button Button_load w = button_load (aquisition_page w)"
| "get_button Button_start w = button_start (aquisition_page w)"

fun get_combo :: "combo \<Rightarrow> MainWindow \<Rightarrow> QComboBox" where
  "get_combo Dd_device w = dd_device (visa_box w)"
| "get_combo Dd_src w = dd_src (source_box w)"

fun map_combo :: "combo \<Rightarrow> (QComboBox \<Rightarrow> QComboBox) \<Rightarrow> MainWindow \<Rightarrow> MainWindow" where
  "map_combo Dd_device f w = map_visa_box (dd_device_update f) w"
| "map_combo Dd_src f w = map_source_box (dd_src_update f) w"

section \<open>Delivering signals to slots\<close>

type_synonym result = "error + MainWindow \<times> notification list"

text \<open>
  A slot is a bound method: it runs on the panel that owns it, whichever signal it is
  connected to. It receives the signal's arguments (PyQt drops those it does not take) and
  the answer the user gives to a modal dialog it opens.
\<close>

fun call_slot :: "dialog_outcome \<Rightarrow> slot \<Rightarrow> pyval list \<Rightarrow> MainWindow \<Rightarrow> result" where
  "call_slot d Slot_onVisaSettingsChanged args w =
     (case onVisaSettingsChanged args (visa_box w) of
        Inl e \<Rightarrow> Inl e
      | Inr ns \<Rightarrow> Inr (w, ns))"
| "call_slot d Slot_onSqlSettingsChanged args w = Inr (w, onSqlSettingsChanged (sql_box w))"
| "call_slot d Slot_onLocalSettingsChanged args w = Inr (w, onLocalSettingsChanged (local_box w))"
| "call_slot d Slot_onDirectoryButtonClicked args w =
     Inr (map_local_box (onDirectoryButtonClicked d) w, [])"
| "call_slot d Slot_onStatefileButtonClicked args w =
     Inr (map_local_box (onStatefileButtonClicked d) w, [])"

text \<open>
  Emitting a widget signal calls the connected slots in connection order; an exception in
  a slot ends the run.
\<close>

fun fire :: "dialog_outcome \<Rightarrow> slot list \<Rightarrow> pyval list \<Rightarrow> MainWindow \<Rightarrow> result" where
  "fire d [] args w = Inr (w, [])"
| "fire d (sl # sls) args w =
     (case call_slot d sl args w of
        Inl e \<Rightarrow> Inl e
      | Inr (w1, ns) \<Rightarrow>
          (case fire d sls args w1 of
             Inl e \<Rightarrow> Inl e
           | Inr (w2, ms) \<Rightarrow> Inr (w2, ns @ ms)))"

section \<open>User interaction\<close>

text \<open>
  What the user can do to the window, as Qt reports it:
  \<^item> \<open>ComboTextChanged c v\<close>: the current text of combo box \<open>c\<close> becomes \<open>v\<close>
    (\<^verbatim>\<open>currentTextChanged(v)\<close>);
  \<^item> \<open>CheckBoxClicked\<close>: a click on the logging check box (\<^verbatim>\<open>stateChanged(int)\<close>);
  \<^item> \<open>LineEdited l t\<close>: typing leaves line edit \<open>l\<close> with text \<open>t\<close> (the program
    connects nothing to \<^verbatim>\<open>textEdited\<close> or \<^verbatim>\<open>textChanged\<close>);
  \<^item> \<open>LineEditingFinished l\<close>: Return/Enter or loss of focus in \<open>l\<close>
    (\<^verbatim>\<open>editingFinished()\<close>);
  \<^item> \<open>ButtonClicked b\<close>: a click on push button \<open>b\<close> (\<^verbatim>\<open>clicked(bool)\<close>);
  \<^item> \<open>TabDragged i j\<close>: dragging the tab at position \<open>i\<close> to position \<open>j\<close>;
  \<^item> \<open>TabClicked i\<close>: selecting the tab at position \<open>i\<close>.
\<close>

datatype event =
    ComboTextChanged combo string
  | CheckBoxClicked
  | LineEdited lineedit string
  | LineEditingFinished lineedit
  | ButtonClicked button
  | TabDragged nat nat
  | TabClicked nat

text \<open>\<^verbatim>\<open>QTabBar.moveTab\<close>: the tab at \<open>i\<close> is taken out and put back at \<open>j\<close>.\<close>

definition moveTab :: "nat \<Rightarrow> nat \<Rightarrow> 'a list \<Rightarrow> 'a list" where
  "moveTab i j xs =
     (if i < length xs \<and> j < length xs
      then (let x = xs ! i; ys = take i xs @ drop (Suc i) xs
            in take j ys @ x # drop j ys)
      else xs)"

text \<open>A tab bar follows a drag only when it is movable.\<close>

definition dragTab :: "nat \<Rightarrow> nat \<Rightarrow> TabWidget \<Rightarrow> TabWidget" where
  "dragTab i j tw = (if movable tw then tw \<lparr> tab_bar := moveTab i j (tab_bar tw) \<rparr> else tw)"

definition setCurrentIndex :: "nat \<Rightarrow> TabWidget \<Rightarrow> TabWidget" where
  "setCurrentIndex i tw = (if i < length (tab_bar tw) then tw \<lparr> currentIndex := Some i \<rparr> else tw)"

text \<open>
  One interaction: Qt updates the widget, then emits the widget's signal to the slots
  connected to it. The first component is the user's answer to a dialog, should a slot
  open one.
\<close>

fun step :: "dialog_outcome \<times> event \<Rightarrow> MainWindow \<Rightarrow> result" where
  "step (d, ComboTextChanged c v) w =
     (let w1 = map_combo c (currentText_update (\<lambda>_. v)) w
      in fire d (currentTextChanged (get_combo c w1)) [PyStr v] w1)"
| "step (d, CheckBoxClicked) w =
     (let w1 = map_sql_box (checkbox_status_update (checkState_update nextCheckState)) w;
          cb = checkbox_status (sql_box w1)
      in fire d (stateChanged cb) [PyInt (CheckState_value (checkState cb))] w1)"
| "step (d, LineEdited l t) w = Inr (map_line l (le_text_update (\<lambda>_. t)) w, [])"
| "step (d, LineEditingFinished l) w = fire d (editingFinished (get_line l w)) [] w"
| "step (d, ButtonClicked b) w = fire d (clicked (get_button b w)) [PyBool False] w"
| "step (d, TabDragged i j) w = Inr (tabs_update (dragTab i j) w, [])"
| "step (d, TabClicked i) w = Inr (tabs_update (setCurrentIndex i) w, [])"

text \<open>A session: the interactions in order, the notifications concatenated.\<close>

fun exec :: "(dialog_outcome \<times> event) list \<Rightarrow> MainWindow \<Rightarrow> result" where
  "exec [] w = Inr (w, [])"
| "exec (i # ins) w =
     (case step i w of
        Inl e \<Rightarrow> Inl e
      | Inr (w1, ns) \<Rightarrow>
          (case exec ins w1 of
             Inl e \<Rightarrow> Inl e
           | Inr (w2, ms) \<Rightarrow> Inr (w2, ns @ ms)))"

text \<open>Reading a result: whether it raised, the window it left, what was emitted.\<close>

fun raised :: "result \<Rightarrow> bool" where
  "raised (Inl e) = True"
| "raised (Inr r) = False"

fun window_of :: "MainWindow \<Rightarrow> result \<Rightarrow> MainWindow" where
  "window_of w0 (Inl e) = w0"
| "window_of w0 (Inr (w, ns)) = w"

fun emitted :: "result \<Rightarrow> notification list" where
  "emitted (Inl e) = []"
| "emitted (Inr (w, ns)) = ns"

text \<open>
  The window after a session that starts with the freshly constructed window, and the
  notifications emitted since construction.
\<close>

definition session :: "(dialog_outcome \<times> event) list \<Rightarrow> result" where
  "session ins = exec ins MainWindow_init"

definition window_after :: "(dialog_outcome \<times> event) list \<Rightarrow> MainWindow" where
  "window_after ins = window_of MainWindow_init (session ins)"

definition trace :: "(dialog_outcome \<times> event) list \<Rightarrow> notification list" where
  "trace ins = emitted (session ins)"

section \<open>What a session leaves fixed\<close>

text \<open>
  The connections as the \<^verbatim>\<open>connect\<close> methods make them: each connected signal has its one
  slot, every other signal has none.
\<close>

definition wired :: "MainWindow \<Rightarrow> bool" where
  "wired w \<longleftrightarrow>
     currentTextChanged (dd_device (visa_box w)) = [Slot_onVisaSettingsChanged] \<and>
     stateChanged (checkbox_status (sql_box w)) = [Slot_onSqlSettingsChanged] \<and>
     editingFinished (line_server (sql_box w)) = [Slot_onSqlSettingsChanged] \<and>
     editingFinished (line_database (sql_box w)) = [Slot_onSqlSettingsChanged] \<and>
     editingFinished (line_table (sql_box w)) = [Slot_onSqlSettingsChanged] \<and>
     clicked (button_statefile (local_box w)) = [Slot_onStatefileButtonClicked] \<and>
     clicked (button_dir (local_box w)) = [Slot_onDirectoryButtonClicked] \<and>
     editingFinished (line_statefile (local_box w)) = [] \<and>
     editingFinished (line_dir (local_box w)) = [Slot_onLocalSettingsChanged] \<and>
     currentTextChanged (dd_src (source_box w)) = [] \<and>
     clicked (button_src_reload (source_box w)) = [] \<and>
     clicked (button_nextrun (aquisition_page w)) = [] \<and>
     clicked (button_load (aquisition_page w)) = [] \<and>
     clicked (button_start (aquisition_page w)) = [] \<and>
     editingFinished (line_part (metadata_box w)) = [] \<and>
     editingFinished (line_number (metadata_box w)) = []"

text \<open>
  The parts of the window that no method writes after construction: the status label, the
  tab bar and the route table.
\<close>

definition fixed :: "MainWindow \<Rightarrow> bool" where
  "fixed w \<longleftrightarrow>
     lab_status_q (visa_box w) = ''Disconnected'' \<and>
     \<not> movable (tabs w) \<and>
     tab_bar (tabs w) =
       [(Page_connections, ''Connections''), (Page_statefile, ''Route''),
        (Page_aquisition, ''Aquisition'')] \<and>
     route_table w =
       \<lparr> rowCount = 0, columnCount = 4,
         horizontalHeaderItems =
           [Some ''Description'', Some ''Units'', Some ''Scan'', Some ''Configure''] \<rparr>"

section \<open>Reading sessions and payloads\<close>

text \<open>The values the device selector was changed to, in order.\<close>

fun device_changes :: "event list \<Rightarrow> string list" where
  "device_changes [] = []"
| "device_changes (ComboTextChanged Dd_device v # evs) = v # device_changes evs"
| "device_changes (ev # evs) = device_changes evs"

text \<open>The keys of a dictionary with the class of each entry.\<close>

definition entry_types :: "pydict \<Rightarrow> (string \<times> pytype) list" where
  "entry_types d = map (\<lambda>(k, v). (k, type_of v)) d"

fun payload_types :: "notification \<Rightarrow> (string \<times> pytype) list" where
  "payload_types (signalSqlSettingsChanged d) = entry_types d"
| "payload_types n = []"

text \<open>The interactions with the two fields of the metadata box.\<close>

fun is_metadata_event :: "event \<Rightarrow> bool" where
  "is_metadata_event (LineEdited l t) = (l = Line_part \<or> l = Line_number)"
| "is_metadata_event (LineEditingFinished l) = (l = Line_part \<or> l = Line_number)"
| "is_metadata_event ev = False"

section \<open>The wiring is an invariant\<close>

lemmas box_defs = visa_box_def sql_box_def local_box_def source_box_def route_table_def
  aquisition_page_def metadata_box_def map_visa_box_def map_sql_box_def map_local_box_def
  map_source_box_def map_aquisition_page_def map_metadata_box_def

lemmas init_defs = MainWindow_init_def MainWindow_connect_def TabWidget_init_def
  QTabWidget_init_def setMovable_def setTabPosition_def addTab_def
  ConnectionsPage_init_def StatefilePage_init_def AquisitionPage_init_def
  VisaConnectionBox_init_def VisaConnectionBox_connect_def VisaConnectionBox_layout_def
  SqlConnectionBox_init_def SqlConnectionBox_connect_def SqlConnectionBox_layout_def
  LocalConnectionBox_init_def LocalConnectionBox_connect_def LocalConnectionBox_layout_def
  StatefileTable_init_def StatefileSourceBox_init_def MetadataBox_init_def
  QLineEdit_init_def QCheckBox_init_def QPushButton_init_def QComboBox_init_def
  QTableWidget_init_def setHorizontalHeaderLabels_def
  connect_editingFinished_def connect_stateChanged_def connect_clicked_def
  connect_currentTextChanged_def WINDOW_TITLE_def

lemma wired_init: "wired MainWindow_init"
  by (simp add: wired_def box_defs init_defs)

lemma step_combo_device:
  "wired w \<Longrightarrow> step (d, ComboTextChanged Dd_device v) w =
     Inr (map_visa_box (dd_device_update (currentText_update (\<lambda>_. v))) w, [signalVisaSettingsChanged v])"
  by (simp add: wired_def box_defs)

lemma step_combo_src:
  "wired w \<Longrightarrow> step (d, ComboTextChanged Dd_src v) w =
     Inr (map_source_box (dd_src_update (currentText_update (\<lambda>_. v))) w, [])"
  by (simp add: wired_def box_defs)

lemma step_checkbox:
  "wired w \<Longrightarrow> step (d, CheckBoxClicked) w =
     Inr (map_sql_box (checkbox_status_update (checkState_update nextCheckState)) w,
          [signalSqlSettingsChanged
             (settings (sql_box (map_sql_box (checkbox_status_update (checkState_update nextCheckState)) w)))])"
  by (simp add: wired_def box_defs onSqlSettingsChanged_def)

lemma step_editingFinished:
  "wired w \<Longrightarrow> step (d, LineEditingFinished l) w =
     Inr (w, if l \<in> {Line_server, Line_database, Line_table}
             then [signalSqlSettingsChanged (settings (sql_box w))]
             else if l = Line_dir then [signalLocalSettingsChanged (le_text (line_dir (local_box w)))]
             else [])"
  by (cases l) (simp_all add: wired_def onSqlSettingsChanged_def onLocalSettingsChanged_def)

lemma step_button:
  "wired w \<Longrightarrow> step (d, ButtonClicked b) w =
     Inr (if b = Button_statefile then map_local_box (onStatefileButtonClicked d) w
          else if b = Button_dir then map_local_box (onDirectoryButtonClicked d) w
          else w, [])"
  by (cases b) (simp_all add: wired_def)

lemma step_wired:
  "wired w \<Longrightarrow> \<exists>w' ns. step i w = Inr (w', ns) \<and> wired w'"
proof -
  assume w: "wired w"
  obtain d ev where i: "i = (d, ev)" by (cases i)
  show ?thesis
  proof (cases ev)
    case (ComboTextChanged c v)
    then show ?thesis using w i
      by (cases c) (simp_all add: step_combo_device step_combo_src del: step.simps, simp_all add: wired_def box_defs)
  next
    case CheckBoxClicked
    then show ?thesis using w i
      by (simp add: step_checkbox del: step.simps, simp add: wired_def box_defs)
  next
    case (LineEdited l t)
    then show ?thesis using w i
      by (cases l) (simp_all add: wired_def box_defs)
  next
    case (LineEditingFinished l)
    then show ?thesis using w i by (simp add: step_editingFinished del: step.simps)
  next
    case (ButtonClicked b)
    then show ?thesis using w i
      by (simp add: step_button del: step.simps, simp add: wired_def box_defs onStatefileButtonClicked_def onDirectoryButtonClicked_def setText_def)
  next
    case (TabDragged k j)
    then show ?thesis using w i
      by (simp add: wired_def box_defs dragTab_def)
  next
    case (TabClicked k)
    then show ?thesis using w i
      by (simp add: wired_def box_defs setCurrentIndex_def)
  qed
qed

lemma exec_wired:
  "wired w \<Longrightarrow> \<exists>w' ns. exec ins w = Inr (w', ns) \<and> wired w'"
proof (induction ins arbitrary: w)
  case Nil
  then show ?case by simp
next
  case (Cons i ins)
  from step_wired [OF Cons.prems] obtain w1 ns where s: "step i w = Inr (w1, ns)" and w1: "wired w1"
    by blast
  from Cons.IH [OF w1] obtain w2 ms where e: "exec ins w1 = Inr (w2, ms)" and w2: "wired w2"
    by blast
  show ?case using s e w2 by simp
qed

lemma session_ok: "session ins = Inr (window_after ins, trace ins)"
  using exec_wired [OF wired_init, of ins]
  by (auto simp: session_def window_after_def trace_def)

lemma wired_window_after: "wired (window_after ins)"
  using exec_wired [OF wired_init, of ins]
  by (auto simp: session_def window_after_def)


lemma fixed_init: "fixed MainWindow_init"
  by (simp add: fixed_def box_defs init_defs upt_rec nth_Cons')

lemma step_fixed:
  assumes "wired w" and "fixed w" and "step i w = Inr (w', ns)"
  shows "fixed w'"
proof -
  obtain d ev where i: "i = (d, ev)" by (cases i)
  show ?thesis
  proof (cases ev)
    case (ComboTextChanged c v)
    then show ?thesis using assms i
      by (cases c) (auto simp add: step_combo_device step_combo_src fixed_def box_defs simp del: step.simps)
  next
    case CheckBoxClicked
    then show ?thesis using assms i
      by (auto simp add: step_checkbox fixed_def box_defs simp del: step.simps)
  next
    case (LineEdited l t)
    then show ?thesis using assms i
      by (cases l) (auto simp add: fixed_def box_defs)
  next
    case (LineEditingFinished l)
    then show ?thesis using assms i
      by (auto simp add: step_editingFinished simp del: step.simps split: if_splits)
  next
    case (ButtonClicked b)
    then show ?thesis using assms i
      by (cases b) (auto simp add: step_button fixed_def box_defs simp del: step.simps)
  next
    case (TabDragged k j)
    then show ?thesis using assms i
      by (auto simp add: fixed_def box_defs dragTab_def)
  next
    case (TabClicked k)
    then show ?thesis using assms i
      by (auto simp add: fixed_def box_defs setCurrentIndex_def split: if_splits)
  qed
qed

lemma exec_fixed:
  "wired w \<Longrightarrow> fixed w \<Longrightarrow> exec ins w = Inr (w', ns) \<Longrightarrow> fixed w'"
proof (induction ins arbitrary: w w' ns)
  case Nil
  then show ?case by simp
next
  case (Cons i ins)
  from step_wired [OF Cons.prems(1)] obtain w1 ns1 where s: "step i w = Inr (w1, ns1)" and w1: "wired w1"
    by blast
  have f1: "fixed w1" using step_fixed [OF Cons.prems(1,2) s] .
  from exec_wired [OF w1] obtain w2 ms where e: "exec ins w1 = Inr (w2, ms)"
    by blast
  have "w' = w2" using Cons.prems(3) s e by simp
  then show ?case using Cons.IH [OF w1 f1 e] by simp
qed

lemma fixed_window_after: "fixed (window_after ins)"
  using exec_fixed [OF wired_init fixed_init] session_ok [of ins]
  by (simp add: session_def)

section \<open>The device connection panel\<close>

text \<open>
  Claim C9. The status indicator \<^verbatim>\<open>lab_status_q\<close> of the VISA panel reads
  \<open>''Disconnected''\<close> when the window is constructed and after every session, whatever the
  user does: no method writes to it, and no session raises.
\<close>

theorem visa_status_stays_disconnected:
  "lab_status_q (visa_box MainWindow_init) = ''Disconnected'' \<and>
   \<not> raised (session ins) \<and>
   lab_status_q (visa_box (window_after ins)) = ''Disconnected''"
  using fixed_init fixed_window_after [of ins] session_ok [of ins]
  by (simp add: fixed_def)

section \<open>The route table\<close>

text \<open>
  Claim C7. After every session the route table has four columns, headed
  \<open>''Description''\<close>, \<open>''Units''\<close>, \<open>''Scan''\<close>, \<open>''Configure''\<close> in this order, and no row; it
  has no row when constructed.
\<close>

theorem route_table_four_columns_no_rows:
  "columnCount (route_table (window_after ins)) = 4 \<and>
   horizontalHeaderItems (route_table (window_after ins)) =
     [Some ''Description'', Some ''Units'', Some ''Scan'', Some ''Configure''] \<and>
   rowCount (route_table (window_after ins)) = 0 \<and>
   rowCount (route_table MainWindow_init) = 0"
  using fixed_init fixed_window_after [of ins]
  by (simp add: fixed_def)

section \<open>The tab container\<close>

text \<open>
  Claim C6. After every session the tab bar shows three tabs: the connections page, the
  route page and the acquisition page, in this order (the labels are \<open>''Connections''\<close>,
  \<open>''Route''\<close> and, as the source spells it, \<open>''Aquisition''\<close>). Dragging any tab to any
  position raises nothing and leaves the tab bar as it was.
\<close>

theorem tabs_fixed_three:
  "(let w = window_after ins;
        r = step (d, TabDragged i j) w
    in map fst (tab_bar (tabs w)) = [Page_connections, Page_statefile, Page_aquisition] \<and>
       map snd (tab_bar (tabs w)) = [''Connections'', ''Route'', ''Aquisition''] \<and>
       length (tab_bar (tabs w)) = 3 \<and>
       \<not> raised r \<and>
       tab_bar (tabs (window_of w r)) = tab_bar (tabs w))"
  using fixed_window_after [of ins]
  by (simp add: fixed_def Let_def dragTab_def)

section \<open>Device selection\<close>

lemma step_visa_trace:
  assumes "wired w" and "step (d, ev) w = Inr (w1, ns)"
  shows "filter is_visa_notification ns = map signalVisaSettingsChanged (device_changes [ev])"
proof (cases ev)
  case (ComboTextChanged c v)
  then show ?thesis using assms
    by (cases c) (auto simp add: step_combo_device step_combo_src simp del: step.simps)
next
  case CheckBoxClicked
  then show ?thesis using assms
    by (auto simp add: step_checkbox simp del: step.simps)
next
  case (LineEditingFinished l)
  then show ?thesis using assms
    by (auto simp add: step_editingFinished simp del: step.simps)
next
  case (ButtonClicked b)
  then show ?thesis using assms
    by (auto simp add: step_button simp del: step.simps)
qed (use assms in auto)

lemma device_changes_Cons:
  "device_changes (ev # evs) = device_changes [ev] @ device_changes evs"
proof (cases ev)
  case (ComboTextChanged c v)
  then show ?thesis by (cases c) simp_all
qed simp_all

lemma exec_visa_trace:
  "wired w \<Longrightarrow> exec ins w = Inr (w', ns) \<Longrightarrow>
   filter is_visa_notification ns = map signalVisaSettingsChanged (device_changes (map snd ins))"
proof (induction ins arbitrary: w w' ns)
  case Nil
  then show ?case by simp
next
  case (Cons i ins)
  obtain d ev where i: "i = (d, ev)" by (cases i)
  from step_wired [OF Cons.prems(1)] obtain w1 ns1 where s: "step i w = Inr (w1, ns1)" and w1: "wired w1"
    by blast
  from exec_wired [OF w1] obtain w2 ms where e: "exec ins w1 = Inr (w2, ms)"
    by blast
  have ns: "ns = ns1 @ ms" using Cons.prems(2) s e by simp
  have a: "filter is_visa_notification ns1 = map signalVisaSettingsChanged (device_changes [ev])"
    using step_visa_trace [OF Cons.prems(1)] s i by simp
  have b: "filter is_visa_notification ms = map signalVisaSettingsChanged (device_changes (map snd ins))"
    using Cons.IH [OF w1 e] .
  show ?case using a b ns i device_changes_Cons [of ev "map snd ins"] by simp
qed

text \<open>
  Claim C5. In every state a session can reach, changing the device selector to \<open>v\<close>
  emits the one notification \<open>signalVisaSettingsChanged v\<close> and nothing else, with \<open>v\<close> as
  it is. Nothing has been emitted when the window is constructed, and over a whole session
  the device notifications are exactly the values the selector was changed to, one each and
  in order.
\<close>

theorem device_change_emits_once:
  "(let w = window_after ins;
        r = step (d, ComboTextChanged Dd_device v) w
    in \<not> raised r \<and> emitted r = [signalVisaSettingsChanged v] \<and>
       currentText (dd_device (visa_box (window_of w r))) = v) \<and>
   trace [] = [] \<and>
   filter is_visa_notification (trace ins) =
     map signalVisaSettingsChanged (device_changes (map snd ins))"
proof -
  have w: "wired (window_after ins)" by (rule wired_window_after)
  have a: "step (d, ComboTextChanged Dd_device v) (window_after ins) =
     Inr (map_visa_box (dd_device_update (currentText_update (\<lambda>_. v))) (window_after ins),
          [signalVisaSettingsChanged v])"
    by (rule step_combo_device [OF w])
  have b: "trace [] = []" by (simp add: trace_def session_def)
  have c: "filter is_visa_notification (trace ins) =
     map signalVisaSettingsChanged (device_changes (map snd ins))"
    using exec_visa_trace [OF wired_init] session_ok [of ins] by (simp add: session_def)
  show ?thesis using a b c by (simp add: Let_def box_defs del: step.simps)
qed


section \<open>The storage panel\<close>

text \<open>
  Claim C1. In every state a session can reach, a click on the logging check box, and the
  end of an edit in the server, database or table field, each emit exactly one
  \<open>signalSqlSettingsChanged\<close>, and its payload holds all four fields as they are at that
  moment: after the click the entry \<open>enabled\<close> is the new check state and the three texts
  are untouched; ending an edit changes nothing in the window.
\<close>

theorem sql_commit_emits_full_settings:
  "(let w = window_after ins;
        full = (\<lambda>b. [(''enabled'', PyCheckState (checkState (checkbox_status b))),
                      (''server'', PyStr (le_text (line_server b))),
                      (''database'', PyStr (le_text (line_database b))),
                      (''table'', PyStr (le_text (line_table b)))]);
        r = step (d, CheckBoxClicked) w;
        b' = sql_box (window_of w r);
        rs = step (d, LineEditingFinished Line_server) w;
        rd = step (d, LineEditingFinished Line_database) w;
        rt = step (d, LineEditingFinished Line_table) w
    in (\<not> raised r \<and> emitted r = [signalSqlSettingsChanged (full b')] \<and>
        checkState (checkbox_status b') = nextCheckState (checkState (checkbox_status (sql_box w))) \<and>
        line_server b' = line_server (sql_box w) \<and>
        line_database b' = line_database (sql_box w) \<and>
        line_table b' = line_table (sql_box w)) \<and>
       (\<not> raised rs \<and> window_of w rs = w \<and> emitted rs = [signalSqlSettingsChanged (full (sql_box w))]) \<and>
       (\<not> raised rd \<and> window_of w rd = w \<and> emitted rd = [signalSqlSettingsChanged (full (sql_box w))]) \<and>
       (\<not> raised rt \<and> window_of w rt = w \<and> emitted rt = [signalSqlSettingsChanged (full (sql_box w))]))"
proof -
  have w: "wired (window_after ins)" by (rule wired_window_after)
  show ?thesis
    by (simp add: Let_def step_checkbox [OF w] step_editingFinished [OF w] settings_def box_defs
        del: step.simps)
qed

section \<open>The local settings panel\<close>

text \<open>
  Claim C4. In every state a session can reach, ending an edit of the fallback-directory
  field emits exactly one \<open>signalLocalSettingsChanged\<close> with the field's text. The browse
  button of that field writes the dialog's result into the field and emits nothing. Of all
  interactions, ending an edit of that field is the only one that emits this notification.
\<close>

theorem fallback_edit_is_only_emitter:
  "(let w = window_after ins;
        re = step (d, LineEditingFinished Line_dir) w;
        rb = step (d, ButtonClicked Button_dir) w
    in (\<not> raised re \<and> window_of w re = w \<and>
        emitted re = [signalLocalSettingsChanged (le_text (line_dir (local_box w)))]) \<and>
       (\<not> raised rb \<and> emitted rb = [] \<and>
        le_text (line_dir (local_box (window_of w rb))) = getExistingDirectory d) \<and>
       filter is_local_notification (emitted (step (d, ev) w)) =
         (if ev = LineEditingFinished Line_dir
          then [signalLocalSettingsChanged (le_text (line_dir (local_box w)))]
          else []))"
proof -
  have w: "wired (window_after ins)" by (rule wired_window_after)
  have only: "filter is_local_notification (emitted (step (d, ev) (window_after ins))) =
         (if ev = LineEditingFinished Line_dir
          then [signalLocalSettingsChanged (le_text (line_dir (local_box (window_after ins))))]
          else [])"
  proof (cases ev)
    case (ComboTextChanged c v)
    then show ?thesis
      by (cases c) (simp_all add: step_combo_device [OF w] step_combo_src [OF w] del: step.simps)
  next
    case CheckBoxClicked
    then show ?thesis by (simp add: step_checkbox [OF w] del: step.simps)
  next
    case (LineEditingFinished l)
    then show ?thesis by (cases l) (simp_all add: step_editingFinished [OF w] del: step.simps)
  next
    case (ButtonClicked b)
    then show ?thesis by (simp add: step_button [OF w] del: step.simps)
  qed simp_all
  show ?thesis using only
    by (simp add: Let_def step_button [OF w] step_editingFinished [OF w] box_defs
        onDirectoryButtonClicked_def setText_def del: step.simps)
qed

section \<open>The metadata box\<close>

lemma exec_metadata_only:
  "wired w \<Longrightarrow>
   \<exists>w'. exec (filter (\<lambda>i. is_metadata_event (snd i)) ins) w = Inr (w', []) \<and> wired w'"
proof (induction ins arbitrary: w)
  case Nil
  then show ?case by simp
next
  case (Cons i ins)
  obtain d ev where i: "i = (d, ev)" by (cases i)
  show ?case
  proof (cases "is_metadata_event ev")
    case False
    then show ?thesis using Cons i by simp
  next
    case True
    from step_wired [OF Cons.prems] obtain w1 ns1 where s: "step i w = Inr (w1, ns1)" and w1: "wired w1"
      by blast
    have "ns1 = []" using True s i Cons.prems
      by (cases ev) (auto simp add: step_editingFinished simp del: step.simps(4))
    moreover from Cons.IH [OF w1] obtain w2 where
      "exec (filter (\<lambda>i. is_metadata_event (snd i)) ins) w1 = Inr (w2, [])" and "wired w2"
      by blast
    ultimately show ?thesis using True s i by simp
  qed
qed

text \<open>
  Claim C8. In every state a session can reach, typing into the part-number or the
  run-number field emits nothing and the field then reads what was typed; ending an edit
  in either field emits nothing and changes nothing. A session made of such interactions
  only has an empty trace.
\<close>

theorem metadata_never_emits:
  "(let w = window_after ins;
        rp = step (d, LineEdited Line_part t) w;
        rn = step (d, LineEdited Line_number t) w
    in (\<not> raised rp \<and> emitted rp = [] \<and> le_text (line_part (metadata_box (window_of w rp))) = t) \<and>
       (\<not> raised rn \<and> emitted rn = [] \<and> le_text (line_number (metadata_box (window_of w rn))) = t) \<and>
       step (d, LineEditingFinished Line_part) w = Inr (w, []) \<and>
       step (d, LineEditingFinished Line_number) w = Inr (w, [])) \<and>
   \<not> raised (session (filter (\<lambda>i. is_metadata_event (snd i)) ins)) \<and>
   trace (filter (\<lambda>i. is_metadata_event (snd i)) ins) = []"
proof -
  have w: "wired (window_after ins)" by (rule wired_window_after)
  have a: "trace (filter (\<lambda>i. is_metadata_event (snd i)) ins) = []"
    using exec_metadata_only [OF wired_init, of ins] by (auto simp: trace_def session_def)
  show ?thesis using a
    by (simp add: Let_def step_editingFinished [OF w] box_defs session_ok del: step.simps(4))
qed

section \<open>The two pickers\<close>

text \<open>
  Claim C10. In every state a session can reach, the state-file browse button writes the
  first component of the dialog's result into the state-file field: the empty string when
  the user cancels, whatever the field held, and the chosen file name otherwise. Neither
  case emits a notification.
\<close>

theorem statefile_picker_writes_unconditionally:
  "(let w = window_after ins;
        rc = step (Cancelled, ButtonClicked Button_statefile) w;
        ra = step (Accepted path flt, ButtonClicked Button_statefile) w
    in (\<not> raised rc \<and> emitted rc = [] \<and>
        le_text (line_statefile (local_box (window_of w rc))) = []) \<and>
       (\<not> raised ra \<and> emitted ra = [] \<and>
        le_text (line_statefile (local_box (window_of w ra))) = path))"
proof -
  have w: "wired (window_after ins)" by (rule wired_window_after)
  show ?thesis
    by (simp add: Let_def step_button [OF w] box_defs onStatefileButtonClicked_def setText_def
        del: step.simps)
qed

text \<open>
  Claim C2, as amended. In every state a session can reach, the fallback-directory browse
  button raises nothing and writes the dialog's result into the field: the chosen path
  when the user confirms, the empty string when the user cancels.
\<close>

theorem directory_picker_writes_result:
  "(let w = window_after ins;
        ra = step (Accepted path flt, ButtonClicked Button_dir) w;
        rc = step (Cancelled, ButtonClicked Button_dir) w
    in (\<not> raised ra \<and> le_text (line_dir (local_box (window_of w ra))) = path) \<and>
       (\<not> raised rc \<and> le_text (line_dir (local_box (window_of w rc))) = []))"
proof -
  have w: "wired (window_after ins)" by (rule wired_window_after)
  show ?thesis
    by (simp add: Let_def step_button [OF w] box_defs onDirectoryButtonClicked_def setText_def
        del: step.simps)
qed

text \<open>
  Claim C2, as stated, fails: with \<open>''/tmp''\<close> typed into the fallback-directory field,
  cancelling the picker leaves the field empty, not unchanged.
\<close>

theorem directory_picker_cancel_counterexample:
  "le_text (line_dir (local_box (window_after [(Cancelled, LineEdited Line_dir ''/tmp'')]))) = ''/tmp'' \<and>
   le_text (line_dir (local_box (window_after
      [(Cancelled, LineEdited Line_dir ''/tmp''), (Cancelled, ButtonClicked Button_dir)]))) = [] \<and>
   le_text (line_dir (local_box (window_after
      [(Cancelled, LineEdited Line_dir ''/tmp''), (Cancelled, ButtonClicked Button_dir)]))) \<noteq>
   le_text (line_dir (local_box (window_after [(Cancelled, LineEdited Line_dir ''/tmp'')])))"
  by (simp add: window_after_def session_def box_defs init_defs
      onDirectoryButtonClicked_def setText_def)

section \<open>The classes of the storage settings\<close>

lemma step_sql_types:
  assumes "wired w" and "step (d, ev) w = Inr (w1, ns)"
  shows "map payload_types (filter is_sql_notification ns) =
         replicate (length (filter is_sql_notification ns))
           [(''enabled'', T_CheckState), (''server'', T_str), (''database'', T_str), (''table'', T_str)]"
proof (cases ev)
  case (ComboTextChanged c v)
  then show ?thesis using assms
    by (cases c) (auto simp add: step_combo_device step_combo_src simp del: step.simps)
next
  case CheckBoxClicked
  then show ?thesis using assms
    by (auto simp add: step_checkbox settings_def entry_types_def simp del: step.simps)
next
  case (LineEditingFinished l)
  then show ?thesis using assms
    by (auto simp add: step_editingFinished settings_def entry_types_def simp del: step.simps)
next
  case (ButtonClicked b)
  then show ?thesis using assms
    by (auto simp add: step_button simp del: step.simps)
qed (use assms in auto)

lemma exec_sql_types:
  "wired w \<Longrightarrow> exec ins w = Inr (w', ns) \<Longrightarrow>
   map payload_types (filter is_sql_notification ns) =
     replicate (length (filter is_sql_notification ns))
       [(''enabled'', T_CheckState), (''server'', T_str), (''database'', T_str), (''table'', T_str)]"
proof (induction ins arbitrary: w w' ns)
  case Nil
  then show ?case by simp
next
  case (Cons i ins)
  obtain d ev where i: "i = (d, ev)" by (cases i)
  from step_wired [OF Cons.prems(1)] obtain w1 ns1 where s: "step i w = Inr (w1, ns1)" and w1: "wired w1"
    by blast
  from exec_wired [OF w1] obtain w2 ms where e: "exec ins w1 = Inr (w2, ms)"
    by blast
  have ns: "ns = ns1 @ ms" using Cons.prems(2) s e by simp
  show ?case
    using step_sql_types [OF Cons.prems(1)] s i Cons.IH [OF w1 e] ns
    by (simp add: replicate_add)
qed

text \<open>
  Claim C3, as amended. The dictionary \<^verbatim>\<open>settings\<close> builds has the keys \<open>enabled\<close>,
  \<open>server\<close>, \<open>database\<close>, \<open>table\<close> in this order; the entry \<open>enabled\<close> is a
  \<^verbatim>\<open>Qt.CheckState\<close> and the other three are strings. Every storage notification of every
  session carries a payload of this shape.
\<close>

theorem settings_enabled_is_check_state:
  "entry_types (settings b) =
     [(''enabled'', T_CheckState), (''server'', T_str), (''database'', T_str), (''table'', T_str)] \<and>
   map payload_types (filter is_sql_notification (trace ins)) =
     replicate (length (filter is_sql_notification (trace ins)))
       [(''enabled'', T_CheckState), (''server'', T_str), (''database'', T_str), (''table'', T_str)]"
  using exec_sql_types [OF wired_init] session_ok [of ins]
  by (simp add: session_def settings_def entry_types_def)

text \<open>
  Claim C3, as stated, fails: the first click on the logging check box of the fresh window
  emits a payload whose entry \<open>enabled\<close> is \<^verbatim>\<open>Qt.CheckState.Checked\<close>, not a boolean.
\<close>

theorem settings_enabled_boolean_counterexample:
  "emitted (step (Cancelled, CheckBoxClicked) MainWindow_init) =
     [signalSqlSettingsChanged
        [(''enabled'', PyCheckState Checked), (''server'', PyStr []),
         (''database'', PyStr []), (''table'', PyStr [])]] \<and>
   map payload_types (emitted (step (Cancelled, CheckBoxClicked) MainWindow_init)) \<noteq>
     [[(''enabled'', T_bool), (''server'', T_str), (''database'', T_str), (''table'', T_str)]]"
  by (simp add: box_defs init_defs onSqlSettingsChanged_def settings_def entry_types_def)

end
